theory Spec2Isabelle
  imports Complex_Main "HOL-Library.Sublist" "HOL-Library.AList"
begin

section \<open>Python values used by the analyzers\<close>

text \<open>
  The three analyzers (\<^verbatim>\<open>networks/ethereum.py\<close>, \<^verbatim>\<open>networks/arbitrum.py\<close>,
  \<^verbatim>\<open>networks/litecoin.py\<close>) are Python scripts over JSON dictionaries. Exceptions are
  values of \<open>error\<close>; a function that can raise returns \<open>error + 'a\<close>.

  Python's true division \<^verbatim>\<open>a / b\<close> yields a binary floating-point number. It is modelled
  by exact division of rationals, so every number of type \<open>rat\<close> below stands for the
  real number the Python float approximates; \<^verbatim>\<open>ZeroDivisionError\<close> is kept.
\<close>

datatype error = ValueError | TypeError | AttributeError | KeyError
  | ZeroDivisionError | StatisticsError

definition truediv :: "rat \<Rightarrow> rat \<Rightarrow> error + rat" where
  "truediv a b = (if b = 0 then Inl ZeroDivisionError else Inr (a / b))"

text \<open>\<^verbatim>\<open>d.get(key, default)\<close> on a field that may be absent.\<close>

definition dget :: "'a option \<Rightarrow> 'a \<Rightarrow> 'a" where
  "dget v d = (case v of None \<Rightarrow> d | Some x \<Rightarrow> x)"

text \<open>Sequencing: the first exception raised ends the computation.\<close>

definition ebind :: "error + 'a \<Rightarrow> ('a \<Rightarrow> error + 'b) \<Rightarrow> error + 'b" where
  "ebind m f = (case m of Inl e \<Rightarrow> Inl e | Inr v \<Rightarrow> f v)"

subsection \<open>\<^verbatim>\<open>int(s, base)\<close> and \<^verbatim>\<open>str.lower\<close> on ASCII strings\<close>

definition is_space :: "char \<Rightarrow> bool" where
  "is_space c = (let n = (of_char c :: nat) in (9 \<le> n \<and> n \<le> 13) \<or> n = 32)"

definition strip :: "string \<Rightarrow> string" where
  "strip s = rev (dropWhile is_space (rev (dropWhile is_space s)))"

definition digit_val :: "char \<Rightarrow> nat option" where
  "digit_val c =
     (let n = (of_char c :: nat) in
      if 48 \<le> n \<and> n \<le> 57 then Some (n - 48)
      else if 97 \<le> n \<and> n \<le> 122 then Some (n - 87)
      else if 65 \<le> n \<and> n \<le> 90 then Some (n - 55)
      else None)"

text \<open>
  Digits of the literal: an underscore may only stand between two digits, and there is at
  least one digit. \<open>prev\<close> tells whether the previous character was a digit.
\<close>

fun parse_digits :: "nat \<Rightarrow> nat \<Rightarrow> bool \<Rightarrow> string \<Rightarrow> nat option" where
  "parse_digits base acc prev [] = (if prev then Some acc else None)"
| "parse_digits base acc prev (c # cs) =
     (if c = CHR ''_'' then (if prev then parse_digits base acc False cs else None)
      else case digit_val c of
             None \<Rightarrow> None
           | Some d \<Rightarrow> if d < base then parse_digits base (acc * base + d) True cs else None)"

text \<open>One underscore is allowed right after a base prefix (\<^verbatim>\<open>0x_1f\<close>).\<close>

definition skip_underscore :: "string \<Rightarrow> string" where
  "skip_underscore s = (case s of [] \<Rightarrow> [] | c # r \<Rightarrow> if c = CHR ''_'' then r else s)"

text \<open>
  The base and the rest of the literal after an optional prefix; the flag says that the
  literal must denote zero (base 0 and a leading \<^verbatim>\<open>0\<close> that starts no prefix).
\<close>

definition base_prefix :: "nat \<Rightarrow> string \<Rightarrow> nat \<times> string \<times> bool" where
  "base_prefix base u =
     (case u of
        z # x # r \<Rightarrow>
          if z = CHR ''0'' \<and> (x = CHR ''x'' \<or> x = CHR ''X'') \<and> (base = 0 \<or> base = 16)
            then (16, skip_underscore r, False)
          else if z = CHR ''0'' \<and> (x = CHR ''o'' \<or> x = CHR ''O'') \<and> (base = 0 \<or> base = 8)
            then (8, skip_underscore r, False)
          else if z = CHR ''0'' \<and> (x = CHR ''b'' \<or> x = CHR ''B'') \<and> (base = 0 \<or> base = 2)
            then (2, skip_underscore r, False)
          else if base = 0 then (10, u, z = CHR ''0'')
          else (base, u, False)
      | _ \<Rightarrow> if base = 0 then (10, u, False) else (base, u, False))"

definition py_int :: "string \<Rightarrow> nat \<Rightarrow> error + int" where
  "py_int s base =
     (let t = strip s;
          neg = (t \<noteq> [] \<and> hd t = CHR ''-'');
          u = (if t \<noteq> [] \<and> (hd t = CHR ''-'' \<or> hd t = CHR ''+'') then tl t else t)
      in case base_prefix base u of
           (b, digits, zero_only) \<Rightarrow>
             (case parse_digits b 0 False digits of
                None \<Rightarrow> Inl ValueError
              | Some v \<Rightarrow>
                  if zero_only \<and> v \<noteq> 0 then Inl ValueError
                  else Inr (if neg then - int v else int v)))"

definition lower_char :: "char \<Rightarrow> char" where
  "lower_char c =
     (case map_of (zip ''ABCDEFGHIJKLMNOPQRSTUVWXYZ'' ''abcdefghijklmnopqrstuvwxyz'') c of
        None \<Rightarrow> c
      | Some l \<Rightarrow> l)"

definition lower :: "string \<Rightarrow> string" where
  "lower s = map lower_char s"

subsection \<open>\<^verbatim>\<open>statistics.median\<close>\<close>

definition median :: "rat list \<Rightarrow> error + rat" where
  "median xs =
     (let data = sort xs; n = length data in
      if n = 0 then Inl StatisticsError
      else if n mod 2 = 1 then Inr (data ! (n div 2))
      else Inr ((data ! (n div 2 - 1) + data ! (n div 2)) / 2))"

section \<open>Litecoin (\<^verbatim>\<open>networks/litecoin.py\<close>)\<close>

text \<open>
  A transaction as the block explorer returns it. A field is \<open>None\<close> when the key is
  absent from the dictionary; the numeric fields are JSON integers.
\<close>

record ltc_vin =
  is_coinbase :: "bool option"

record ltc_status =
  confirmed :: "bool option"
  block_height :: "int option"

record ltc_tx =
  ltx_fee :: "int option"
  ltx_weight :: "int option"
  ltx_size :: "int option"
  ltx_vin :: "ltc_vin list option"
  ltx_vout :: "int list option"
  ltx_status :: "ltc_status option"

definition MAX_FEE :: rat where
  "MAX_FEE = 8"

definition OUR_TRANSACTIONS_LIMIT :: nat where
  "OUR_TRANSACTIONS_LIMIT = 20"

definition NETWORK_BLOCKS_LIMIT :: int where
  "NETWORK_BLOCKS_LIMIT = 20"

definition calculate_fee_per_byte :: "ltc_tx \<Rightarrow> error + (rat \<times> rat)" where
  "calculate_fee_per_byte tx =
     (let fee_litoshi = dget (ltx_fee tx) 0;
          weight = dget (ltx_weight tx) 0
      in case (if weight > 0 then truediv (of_int weight) 4
               else Inr (of_int (dget (ltx_size tx) 1))) of
           Inl e \<Rightarrow> Inl e
         | Inr vsize \<Rightarrow>
             (case (if vsize > 0 then truediv (of_int fee_litoshi) vsize else Inr 0) of
                Inl e \<Rightarrow> Inl e
              | Inr fee_per_byte \<Rightarrow> Inr (fee_per_byte, vsize)))"

definition is_cpfp_transaction :: "ltc_tx \<Rightarrow> error + bool" where
  "is_cpfp_transaction tx =
     (let vin_count = length (dget (ltx_vin tx) []) in
      if vin_count > 5 then
        (let fee_litoshi = dget (ltx_fee tx) 0 in
         case (if dget (ltx_weight tx) 0 > 0 then truediv (of_int (dget (ltx_weight tx) 0)) 4
               else Inr (of_int (dget (ltx_size tx) 1))) of
           Inl e \<Rightarrow> Inl e
         | Inr vsize \<Rightarrow>
             (case (if vsize > 0 then truediv (of_int fee_litoshi) vsize else Inr 0) of
                Inl e \<Rightarrow> Inl e
              | Inr fee_per_byte \<Rightarrow> if fee_per_byte < 2 then Inr True else Inr False))
      else Inr False)"

subsection \<open>The block explorer\<close>

text \<open>
  Every request is recorded in a log of calls, and what the explorer answers may depend on all
  requests made before. A failed request (transport error, status other than 200,
  undecodable body) is the answer \<open>None\<close>, or the empty list where the source returns one.
\<close>

datatype ltc_call = CallAddressTxs | CallBlockchainStatus | CallBlocks | CallBlockTxs int

record ltc_chain_status =
  st_blocks :: "int option"

record ltc_block =
  blk_height :: "int option"

record ltc_api =
  address_txs :: "ltc_call list \<Rightarrow> ltc_tx list option"
  blockchain_status :: "ltc_call list \<Rightarrow> ltc_chain_status option"
  blocks_page :: "ltc_call list \<Rightarrow> ltc_block list option"
  block_txs :: "ltc_call list \<Rightarrow> int \<Rightarrow> ltc_tx list"

definition get_blockchain_info ::
  "ltc_api \<Rightarrow> ltc_call list \<Rightarrow> ltc_chain_status option \<times> ltc_call list" where
  "get_blockchain_info api calls = (blockchain_status api calls, calls @ [CallBlockchainStatus])"

text \<open>\<^verbatim>\<open>xs[:limit]\<close>\<close>

definition slice_to :: "'a list \<Rightarrow> int \<Rightarrow> 'a list" where
  "slice_to xs limit =
     (if 0 \<le> limit then take (nat limit) xs else take (length xs - nat (- limit)) xs)"

text \<open>\<^verbatim>\<open>[block['height'] for block in ...]\<close>; \<open>None\<close> when a key is missing.\<close>

fun heights :: "ltc_block list \<Rightarrow> int list option" where
  "heights [] = Some []"
| "heights (b # bs) =
     (case blk_height b of
        None \<Rightarrow> None
      | Some h \<Rightarrow> (case heights bs of None \<Rightarrow> None | Some hs \<Rightarrow> Some (h # hs)))"

definition get_recent_blocks ::
  "ltc_api \<Rightarrow> ltc_call list \<Rightarrow> int \<Rightarrow> error + (int list \<times> ltc_call list)" where
  "get_recent_blocks api calls limit =
     (case get_blockchain_info api calls of
        (blockchain_info, calls1) \<Rightarrow>
          (case blockchain_info of
             None \<Rightarrow>
               (case blocks_page api calls1 of
                  None \<Rightarrow> Inr ([], calls1 @ [CallBlocks])
                | Some page \<Rightarrow>
                    (case heights (slice_to page limit) of
                       None \<Rightarrow> Inr ([], calls1 @ [CallBlocks])
                     | Some hs \<Rightarrow> Inr (hs, calls1 @ [CallBlocks])))
           | Some info \<Rightarrow>
               (case st_blocks info of
                  None \<Rightarrow> Inl KeyError
                | Some current_height \<Rightarrow>
                    (let start_height = max 1 (current_height - limit + 1)
                     in Inr ([start_height..current_height], calls1)))))"

definition ltc_get_block_transactions ::
  "ltc_api \<Rightarrow> ltc_call list \<Rightarrow> int \<Rightarrow> ltc_tx list \<times> ltc_call list" where
  "ltc_get_block_transactions api calls height =
     (block_txs api calls height, calls @ [CallBlockTxs height])"

subsection \<open>The user's own transactions\<close>

record our_lists =
  fees :: "rat list"
  sizes :: "int list"
  weights :: "int list"
  inputs :: "nat list"
  outputs :: "nat list"

record our_stats =
  avg_fee_per_byte :: rat
  avg_size :: rat
  avg_weight :: rat
  avg_inputs :: rat
  avg_outputs :: rat
  total_txs :: nat

text \<open>\<^verbatim>\<open>tx.get('status', {}).get('confirmed', False)\<close>\<close>

definition tx_confirmed :: "ltc_tx \<Rightarrow> bool" where
  "tx_confirmed tx =
     dget (confirmed (dget (ltx_status tx) \<lparr>confirmed = None, block_height = None\<rparr>)) False"

text \<open>The body of the loop \<^verbatim>\<open>for tx in our_txs\<close>.\<close>

definition our_tx_step :: "ltc_tx \<Rightarrow> our_lists \<Rightarrow> error + our_lists" where
  "our_tx_step tx acc =
     (if \<not> tx_confirmed tx
      then Inr acc
      else case calculate_fee_per_byte tx of
             Inl e \<Rightarrow> Inl e
           | Inr (fee_per_byte, vsize) \<Rightarrow>
               Inr \<lparr>fees = fees acc @ [fee_per_byte],
                    sizes = sizes acc @ [dget (ltx_size tx) 0],
                    weights = weights acc @ [dget (ltx_weight tx) 0],
                    inputs = inputs acc @ [length (dget (ltx_vin tx) [])],
                    outputs = outputs acc @ [length (dget (ltx_vout tx) [])]\<rparr>)"

fun our_tx_loop :: "ltc_tx list \<Rightarrow> our_lists \<Rightarrow> error + our_lists" where
  "our_tx_loop [] acc = Inr acc"
| "our_tx_loop (tx # txs) acc =
     (case our_tx_step tx acc of Inl e \<Rightarrow> Inl e | Inr acc' \<Rightarrow> our_tx_loop txs acc')"

definition our_medians :: "our_lists \<Rightarrow> error + our_stats" where
  "our_medians acc =
     ebind (median (fees acc)) (\<lambda>m_fee.
     ebind (median (map of_int (sizes acc))) (\<lambda>m_size.
     ebind (median (map of_int (weights acc))) (\<lambda>m_weight.
     ebind (median (map of_nat (inputs acc))) (\<lambda>m_inputs.
     ebind (median (map of_nat (outputs acc))) (\<lambda>m_outputs.
       Inr \<lparr>avg_fee_per_byte = m_fee, avg_size = m_size, avg_weight = m_weight,
            avg_inputs = m_inputs, avg_outputs = m_outputs,
            total_txs = length (fees acc)\<rparr>)))))"

text \<open>
  The whole body after the address check is inside \<^verbatim>\<open>try ... except Exception\<close>, so an
  exception there ends in \<^verbatim>\<open>return None\<close>.
\<close>

definition get_our_transactions_stats ::
  "string \<Rightarrow> ltc_api \<Rightarrow> ltc_call list \<Rightarrow> our_stats option \<times> ltc_call list" where
  "get_our_transactions_stats my_address api calls =
     (if my_address = [] then (None, calls)
      else case address_txs api calls of
             None \<Rightarrow> (None, calls @ [CallAddressTxs])
           | Some response \<Rightarrow>
               (let our_txs = take OUR_TRANSACTIONS_LIMIT response in
                case our_tx_loop our_txs
                       \<lparr>fees = [], sizes = [], weights = [], inputs = [], outputs = []\<rparr> of
                  Inl e \<Rightarrow> (None, calls @ [CallAddressTxs])
                | Inr acc \<Rightarrow>
                    if fees acc = [] then (None, calls @ [CallAddressTxs])
                    else (case our_medians acc of
                            Inl e \<Rightarrow> (None, calls @ [CallAddressTxs])
                          | Inr stats \<Rightarrow> (Some stats, calls @ [CallAddressTxs]))))"

subsection \<open>The network sample\<close>

record ltc_sample =
  s_fee_per_byte :: rat
  s_size :: int
  s_weight :: int
  s_inputs :: nat
  s_outputs :: nat
  s_vsize :: rat

text \<open>The body of the loop \<^verbatim>\<open>for tx in transactions\<close>.\<close>

definition network_tx_step :: "ltc_tx \<Rightarrow> ltc_sample list \<Rightarrow> error + ltc_sample list" where
  "network_tx_step tx network_transactions =
     (if list_ex (\<lambda>vin. dget (is_coinbase vin) False) (dget (ltx_vin tx) [])
      then Inr network_transactions
      else case is_cpfp_transaction tx of
             Inl e \<Rightarrow> Inl e
           | Inr cpfp \<Rightarrow>
               if cpfp then Inr network_transactions
               else (case calculate_fee_per_byte tx of
                       Inl e \<Rightarrow> Inl e
                     | Inr (fee_per_byte, vsize) \<Rightarrow>
                         if 0 < fee_per_byte \<and> fee_per_byte \<le> MAX_FEE
                         then Inr (network_transactions @
                                [\<lparr>s_fee_per_byte = fee_per_byte,
                                  s_size = dget (ltx_size tx) 0,
                                  s_weight = dget (ltx_weight tx) 0,
                                  s_inputs = length (dget (ltx_vin tx) []),
                                  s_outputs = length (dget (ltx_vout tx) []),
                                  s_vsize = vsize\<rparr>])
                         else Inr network_transactions))"

fun network_tx_loop :: "ltc_tx list \<Rightarrow> ltc_sample list \<Rightarrow> error + ltc_sample list" where
  "network_tx_loop [] acc = Inr acc"
| "network_tx_loop (tx # txs) acc =
     (case network_tx_step tx acc of Inl e \<Rightarrow> Inl e | Inr acc' \<Rightarrow> network_tx_loop txs acc')"

text \<open>
  Whether one transaction, met alone, ends up in the user's lists, and whether it ends up in
  the network sample.
\<close>

definition mine_retains :: "ltc_tx \<Rightarrow> bool" where
  "mine_retains tx =
     (case our_tx_step tx \<lparr>fees = [], sizes = [], weights = [], inputs = [], outputs = []\<rparr> of
        Inl e \<Rightarrow> False
      | Inr acc \<Rightarrow> fees acc \<noteq> [])"

definition network_retains :: "ltc_tx \<Rightarrow> bool" where
  "network_retains tx =
     (case network_tx_step tx [] of Inl e \<Rightarrow> False | Inr acc \<Rightarrow> acc \<noteq> [])"

text \<open>The loop \<^verbatim>\<open>for i, block_height in enumerate(recent_blocks)\<close>.\<close>

fun network_block_loop ::
  "ltc_api \<Rightarrow> int list \<Rightarrow> ltc_sample list \<times> ltc_call list
     \<Rightarrow> error + (ltc_sample list \<times> ltc_call list)" where
  "network_block_loop api [] st = Inr st"
| "network_block_loop api (h # hs) (acc, calls) =
     (case ltc_get_block_transactions api calls h of
        (transactions, calls1) \<Rightarrow>
          if transactions = [] then network_block_loop api hs (acc, calls1)
          else (case network_tx_loop transactions acc of
                  Inl e \<Rightarrow> Inl e
                | Inr acc' \<Rightarrow> network_block_loop api hs (acc', calls1)))"

text \<open>
  The logging line after \<^verbatim>\<open>get_recent_blocks\<close> evaluates \<^verbatim>\<open>min(recent_blocks)\<close>, which raises
  \<^verbatim>\<open>ValueError\<close> on the empty list.
\<close>

definition analyze_network_transactions ::
  "ltc_api \<Rightarrow> ltc_call list \<Rightarrow> error + (ltc_sample list \<times> ltc_call list)" where
  "analyze_network_transactions api calls =
     (case get_recent_blocks api calls NETWORK_BLOCKS_LIMIT of
        Inl e \<Rightarrow> Inl e
      | Inr (recent_blocks, calls1) \<Rightarrow>
          if recent_blocks = [] then Inl ValueError
          else network_block_loop api recent_blocks ([], calls1))"

subsection \<open>The comparison\<close>

text \<open>
  \<^verbatim>\<open>(diff / network) * 100 if network > 0 else 0\<close>, the expression of every row of the
  comparison table.
\<close>

definition ltc_diff_percent :: "rat \<Rightarrow> rat \<Rightarrow> error + rat" where
  "ltc_diff_percent diff network =
     (if network > 0
      then (case truediv diff network of Inl e \<Rightarrow> Inl e | Inr q \<Rightarrow> Inr (q * 100))
      else Inr 0)"

record comparison_row =
  row_user :: rat
  row_network :: rat
  row_diff :: rat
  row_diff_percent :: rat

definition comparison :: "rat \<Rightarrow> rat \<Rightarrow> error + comparison_row" where
  "comparison ours network =
     (case ltc_diff_percent (ours - network) network of
        Inl e \<Rightarrow> Inl e
      | Inr p \<Rightarrow> Inr \<lparr>row_user = ours, row_network = network,
                      row_diff = ours - network, row_diff_percent = p\<rparr>)"

record ltc_report =
  rep_fee :: comparison_row
  rep_size :: comparison_row
  rep_vsize :: comparison_row
  rep_inputs :: comparison_row
  rep_outputs :: comparison_row
  rep_user_txs :: nat
  rep_network_txs :: nat

definition build_report :: "our_stats \<Rightarrow> ltc_sample list \<Rightarrow> error + ltc_report" where
  "build_report ours network_txs =
     ebind (median (map s_fee_per_byte network_txs)) (\<lambda>n_fee.
     ebind (median (map (of_int \<circ> s_size) network_txs)) (\<lambda>n_size.
     ebind (median (map (of_int \<circ> s_weight) network_txs)) (\<lambda>n_weight.
     ebind (median (map (of_nat \<circ> s_inputs) network_txs)) (\<lambda>n_inputs.
     ebind (median (map (of_nat \<circ> s_outputs) network_txs)) (\<lambda>n_outputs.
     ebind (median (map s_vsize network_txs)) (\<lambda>n_vsize.
     ebind (comparison (avg_fee_per_byte ours) n_fee) (\<lambda>r_fee.
     ebind (comparison (avg_size ours) n_size) (\<lambda>r_size.
     ebind (truediv (avg_weight ours) 4) (\<lambda>our_vsize.
     ebind (comparison our_vsize n_vsize) (\<lambda>r_vsize.
     ebind (comparison (avg_inputs ours) n_inputs) (\<lambda>r_inputs.
     ebind (comparison (avg_outputs ours) n_outputs) (\<lambda>r_outputs.
       Inr \<lparr>rep_fee = r_fee, rep_size = r_size, rep_vsize = r_vsize,
            rep_inputs = r_inputs, rep_outputs = r_outputs,
            rep_user_txs = total_txs ours,
            rep_network_txs = length network_txs\<rparr>))))))))))))"

datatype ltc_result = NotConfigured | NoUserStatistics | NoNetworkTransactions
  | Report ltc_report

text \<open>\<^verbatim>\<open>main()\<close>: the result of the run and the requests it made.\<close>

definition ltc_main :: "string \<Rightarrow> ltc_api \<Rightarrow> error + (ltc_result \<times> ltc_call list)" where
  "ltc_main my_address api =
     (if my_address = [] then Inr (NotConfigured, [])
      else case get_our_transactions_stats my_address api [] of
             (None, calls1) \<Rightarrow> Inr (NoUserStatistics, calls1)
           | (Some ours, calls1) \<Rightarrow>
               (case analyze_network_transactions api calls1 of
                  Inl e \<Rightarrow> Inl e
                | Inr (network_txs, calls2) \<Rightarrow>
                    if network_txs = [] then Inr (NoNetworkTransactions, calls2)
                    else (case build_report ours network_txs of
                            Inl e \<Rightarrow> Inl e
                          | Inr report \<Rightarrow> Inr (Report report, calls2))))"

text \<open>Example inputs: a confirmed transaction with six ordinary inputs and 100 virtual bytes.\<close>

definition six_inputs :: "int \<Rightarrow> ltc_tx" where
  "six_inputs fee_litoshi =
     \<lparr>ltx_fee = Some fee_litoshi, ltx_weight = Some 400, ltx_size = Some 150,
      ltx_vin = Some [\<lparr>is_coinbase = Some False\<rparr>, \<lparr>is_coinbase = Some False\<rparr>,
                      \<lparr>is_coinbase = Some False\<rparr>, \<lparr>is_coinbase = Some False\<rparr>,
                      \<lparr>is_coinbase = Some False\<rparr>, \<lparr>is_coinbase = Some False\<rparr>],
      ltx_vout = Some [1000, 2000],
      ltx_status = Some \<lparr>confirmed = Some True, block_height = Some 5\<rparr>\<rparr>"

section \<open>Ethereum and Arbitrum (\<^verbatim>\<open>networks/ethereum.py\<close>, \<^verbatim>\<open>networks/arbitrum.py\<close>)\<close>

text \<open>
  A field of a JSON dictionary is a string or an integer; \<open>None\<close> is an absent key (for
  \<^verbatim>\<open>to\<close>, which the code only reads with \<^verbatim>\<open>tx.get("to")\<close>, also JSON \<^verbatim>\<open>null\<close>).
\<close>

datatype jval = JStr string | JNum int

record raw_tx =
  tx_hash :: "jval option"
  tx_from :: "jval option"
  tx_to :: "jval option"
  tx_value :: "jval option"
  tx_input :: "jval option"
  tx_gasPrice :: "jval option"
  tx_gas :: "jval option"
  tx_gasUsed :: "jval option"
  tx_blockNumber :: "jval option"

record receipt =
  rc_gasUsed :: "jval option"

text \<open>
  The dictionaries the analyzers build themselves (\<^verbatim>\<open>transaction_data\<close>,
  \<^verbatim>\<open>transfer_data\<close>), with keys \<^verbatim>\<open>token\<close>, \<^verbatim>\<open>hash\<close>, \<^verbatim>\<open>block\<close>, \<^verbatim>\<open>gas_used\<close>,
  \<^verbatim>\<open>gas_price\<close>, \<^verbatim>\<open>gas_limit\<close>, \<^verbatim>\<open>fee\<close>.
\<close>

record transfer =
  t_token :: string
  t_hash :: jval
  t_block :: int
  t_gas_used :: int
  t_gas_price :: int
  t_gas_limit :: int
  t_fee :: int

text \<open>Truth value of \<^verbatim>\<open>tx.get(key)\<close>.\<close>

definition truthy :: "jval option \<Rightarrow> bool" where
  "truthy v = (case v of None \<Rightarrow> False | Some (JStr s) \<Rightarrow> s \<noteq> [] | Some (JNum n) \<Rightarrow> n \<noteq> 0)"

text \<open>\<^verbatim>\<open>int(v, base)\<close> accepts only a string; \<^verbatim>\<open>int(v)\<close> also a number.\<close>

definition int_base :: "jval \<Rightarrow> nat \<Rightarrow> error + int" where
  "int_base v base = (case v of JStr s \<Rightarrow> py_int s base | JNum n \<Rightarrow> Inl TypeError)"

definition int_of :: "jval \<Rightarrow> error + int" where
  "int_of v = (case v of JStr s \<Rightarrow> py_int s 10 | JNum n \<Rightarrow> Inr n)"

text \<open>\<^verbatim>\<open>v.lower()\<close> and \<^verbatim>\<open>v.startswith(p)\<close> exist on strings only.\<close>

definition str_lower :: "jval \<Rightarrow> error + string" where
  "str_lower v = (case v of JStr s \<Rightarrow> Inr (lower s) | JNum n \<Rightarrow> Inl AttributeError)"

definition str_startswith :: "jval \<Rightarrow> string \<Rightarrow> error + bool" where
  "str_startswith v p = (case v of JStr s \<Rightarrow> Inr (prefix p s) | JNum n \<Rightarrow> Inl AttributeError)"

text \<open>The module-level settings read from \<^verbatim>\<open>config.py\<close>.\<close>

record config =
  MY_ADDRESS :: string
  API_KEY :: string
  NETWORK_TOKENS :: "(string \<times> string) list"
  MAX_MY_TRANSACTIONS :: int
  MAX_NETWORK_EXAMPLES :: int

definition ZERO_ADDRESS :: string where
  "ZERO_ADDRESS = ''0x0000000000000000000000000000000000000000''"

subsection \<open>The explorer API\<close>

text \<open>
  As for Litecoin, every request is recorded and the answer may depend on the requests
  made before. A failed request is the empty list, or no receipt; a receipt that is an
  empty dictionary counts as no receipt (\<^verbatim>\<open>if receipt:\<close>).
\<close>

datatype call = GetTransactions string "string option" int | GetBlock int | GetReceipt jval

record api =
  transactions_of :: "call list \<Rightarrow> string \<Rightarrow> string option \<Rightarrow> int \<Rightarrow> raw_tx list"
  block_transactions_of :: "call list \<Rightarrow> int \<Rightarrow> raw_tx list"
  receipt_of :: "call list \<Rightarrow> jval \<Rightarrow> receipt option"


definition get_block_transactions :: "api \<Rightarrow> call list \<Rightarrow> int \<Rightarrow> raw_tx list \<times> call list" where
  "get_block_transactions a calls block_number =
     (block_transactions_of a calls block_number, calls @ [GetBlock block_number])"

definition get_transaction_receipt ::
  "api \<Rightarrow> call list \<Rightarrow> jval \<Rightarrow> receipt option \<times> call list" where
  "get_transaction_receipt a calls h = (receipt_of a calls h, calls @ [GetReceipt h])"

subsection \<open>\<^verbatim>\<open>is_token_transfer\<close>\<close>

text \<open>\<^verbatim>\<open>ethereum.py\<close>, lines 121 to 128.\<close>

definition eth_is_token_transfer :: "raw_tx \<Rightarrow> string \<Rightarrow> error + bool" where
  "eth_is_token_transfer tx token_address =
     (if token_address = ZERO_ADDRESS then
        (if \<not> truthy (tx_to tx) then Inr False
         else ebind (int_base (dget (tx_value tx) (JStr ''0'')) 16) (\<lambda>v. Inr (v > 0)))
      else
        (case tx_to tx of
           None \<Rightarrow> Inr False
         | Some recipient \<Rightarrow>
             if \<not> truthy (Some recipient) then Inr False
             else ebind (str_lower recipient) (\<lambda>l.
                    if l \<noteq> lower token_address then Inr False
                    else str_startswith (dget (tx_input tx) (JStr [])) ''0xa9059cbb'')))"

text \<open>\<^verbatim>\<open>arbitrum.py\<close>, lines 165 to 188.\<close>

definition arb_is_token_transfer :: "raw_tx \<Rightarrow> string \<Rightarrow> error + bool" where
  "arb_is_token_transfer tx token_address =
     (if token_address = ZERO_ADDRESS then
        (if \<not> truthy (tx_to tx) then Inr False
         else ebind (int_base (dget (tx_value tx) (JStr ''0'')) 0) (\<lambda>v.
                if \<not> v > 0 then Inr False
                else Inr (tx_input tx = Some (JStr ''0x'') \<or> tx_input tx = Some (JStr []))))
      else
        (case tx_to tx of
           None \<Rightarrow> Inr False
         | Some recipient \<Rightarrow>
             if \<not> truthy (Some recipient) then Inr False
             else ebind (str_lower recipient) (\<lambda>l.
                    if l \<noteq> lower token_address then Inr False
                    else str_startswith (dget (tx_input tx) (JStr [])) ''0xa9059cbb'')))"

subsection \<open>\<^verbatim>\<open>collect_my_transactions\<close> (the same text in both files)\<close>






subsection \<open>\<^verbatim>\<open>collect_network_transfers\<close>\<close>

text \<open>
  The state of the loops: \<^verbatim>\<open>network_data\<close>, \<^verbatim>\<open>token_counters\<close> and the requests made.
  \<^verbatim>\<open>tokens_to_find\<close> is a set of token names.
\<close>

type_synonym sampler = "transfer list \<times> (string \<rightharpoonup> int) \<times> call list"

text \<open>\<^verbatim>\<open>ethereum.py\<close>, lines 183 to 200: what happens once \<^verbatim>\<open>is_token_transfer\<close> holds.\<close>

definition eth_take_transfer ::
  "api \<Rightarrow> int \<Rightarrow> raw_tx \<Rightarrow> string \<Rightarrow> sampler \<Rightarrow> error + sampler" where
  "eth_take_transfer a block_number tx token_name st =
     (case st of (network_data, token_counters, calls) \<Rightarrow>
        (case get_transaction_receipt a calls (dget (tx_hash tx) (JStr [])) of
           (None, calls1) \<Rightarrow> Inr (network_data, token_counters, calls1)
         | (Some r, calls1) \<Rightarrow>
             ebind (int_base (dget (rc_gasUsed r) (JStr ''0'')) 16) (\<lambda>gas_used.
             ebind (int_base (dget (tx_gasPrice tx) (JStr ''0'')) 16) (\<lambda>gas_price.
             ebind (int_base (dget (tx_gas tx) (JStr ''0'')) 16) (\<lambda>gas_limit.
               (case token_counters token_name of
                  None \<Rightarrow> Inl KeyError
                | Some c \<Rightarrow>
                    Inr (network_data @
                           [\<lparr>t_token = token_name,
                             t_hash = dget (tx_hash tx) (JStr []),
                             t_block = block_number,
                             t_gas_used = gas_used,
                             t_gas_price = gas_price,
                             t_gas_limit = gas_limit,
                             t_fee = gas_used * gas_price\<rparr>],
                         token_counters(token_name \<mapsto> c + 1),
                         calls1)))))))"

text \<open>The loop \<^verbatim>\<open>for token_name, token_address in NETWORK_TOKENS.items()\<close> for one transaction.\<close>

fun eth_token_loop ::
  "config \<Rightarrow> api \<Rightarrow> string set \<Rightarrow> int \<Rightarrow> raw_tx \<Rightarrow> (string \<times> string) list \<Rightarrow> sampler
     \<Rightarrow> error + sampler" where
  "eth_token_loop cfg a tokens_to_find block_number tx [] st = Inr st"
| "eth_token_loop cfg a tokens_to_find block_number tx ((token_name, token_address) # rest) st =
     (if token_name \<notin> tokens_to_find
      then eth_token_loop cfg a tokens_to_find block_number tx rest st
      else (case fst (snd st) token_name of
              None \<Rightarrow> Inl KeyError
            | Some c \<Rightarrow>
                if c \<ge> MAX_NETWORK_EXAMPLES cfg
                then eth_token_loop cfg a tokens_to_find block_number tx rest st
                else ebind (eth_is_token_transfer tx token_address) (\<lambda>is_transfer.
                       if is_transfer
                       then ebind (eth_take_transfer a block_number tx token_name st)
                              (eth_token_loop cfg a tokens_to_find block_number tx rest)
                       else eth_token_loop cfg a tokens_to_find block_number tx rest st)))"

text \<open>The loop \<^verbatim>\<open>for tx in txs_in_block\<close>.\<close>

fun eth_tx_loop ::
  "config \<Rightarrow> api \<Rightarrow> string set \<Rightarrow> int \<Rightarrow> raw_tx list \<Rightarrow> sampler \<Rightarrow> error + sampler" where
  "eth_tx_loop cfg a tokens_to_find block_number [] st = Inr st"
| "eth_tx_loop cfg a tokens_to_find block_number (tx # txs) st =
     ebind (eth_token_loop cfg a tokens_to_find block_number tx (NETWORK_TOKENS cfg) st)
       (eth_tx_loop cfg a tokens_to_find block_number txs)"

text \<open>
  The loop \<^verbatim>\<open>for i, block in enumerate(blocks)\<close>. \<^verbatim>\<open>token_counters\<close> is assigned a fresh
  dictionary \<^verbatim>\<open>{token: 0 for token in tokens_to_find}\<close> inside this loop, once per block.
\<close>

fun eth_block_loop ::
  "config \<Rightarrow> api \<Rightarrow> string set \<Rightarrow> int list \<Rightarrow> transfer list \<times> call list
     \<Rightarrow> error + (transfer list \<times> call list)" where
  "eth_block_loop cfg a tokens_to_find [] st = Inr st"
| "eth_block_loop cfg a tokens_to_find (block_number # rest) (network_data, calls) =
     (case get_block_transactions a calls block_number of
        (txs_in_block, calls1) \<Rightarrow>
          ebind (eth_tx_loop cfg a tokens_to_find block_number txs_in_block
                   (network_data, (\<lambda>t. if t \<in> tokens_to_find then Some 0 else None), calls1))
            (\<lambda>st1. eth_block_loop cfg a tokens_to_find rest (fst st1, snd (snd st1))))"

definition eth_collect_network_transfers ::
  "config \<Rightarrow> api \<Rightarrow> int list \<Rightarrow> string set \<Rightarrow> call list
     \<Rightarrow> error + (transfer list \<times> call list)" where
  "eth_collect_network_transfers cfg a blocks tokens_to_find calls =
     eth_block_loop cfg a tokens_to_find blocks ([], calls)"

text \<open>
  \<^verbatim>\<open>arbitrum.py\<close>, lines 269 to 287. A gas field is parsed as hexadecimal when it is a
  string and taken as it is otherwise.
\<close>

definition hex_or_number :: "jval \<Rightarrow> error + int" where
  "hex_or_number v = (case v of JStr s \<Rightarrow> py_int s 16 | JNum n \<Rightarrow> Inr n)"

definition arb_take_transfer ::
  "api \<Rightarrow> int \<Rightarrow> raw_tx \<Rightarrow> string \<Rightarrow> sampler \<Rightarrow> error + sampler" where
  "arb_take_transfer a block_number tx token_name st =
     (case st of (network_data, token_counters, calls) \<Rightarrow>
        (case get_transaction_receipt a calls (dget (tx_hash tx) (JStr ''N/A'')) of
           (None, calls1) \<Rightarrow> Inr (network_data, token_counters, calls1)
         | (Some r, calls1) \<Rightarrow>
             ebind (hex_or_number (dget (rc_gasUsed r) (JStr ''0''))) (\<lambda>gas_used.
             ebind (hex_or_number (dget (tx_gasPrice tx) (JStr ''0''))) (\<lambda>gas_price.
             ebind (hex_or_number (dget (tx_gas tx) (JStr ''0''))) (\<lambda>gas_limit.
               (case token_counters token_name of
                  None \<Rightarrow> Inl KeyError
                | Some c \<Rightarrow>
                    Inr (network_data @
                           [\<lparr>t_token = token_name,
                             t_hash = dget (tx_hash tx) (JStr ''N/A''),
                             t_block = block_number,
                             t_gas_used = gas_used,
                             t_gas_price = gas_price,
                             t_gas_limit = gas_limit,
                             t_fee = gas_used * gas_price\<rparr>],
                         token_counters(token_name \<mapsto> c + 1),
                         calls1)))))))"

fun arb_token_loop ::
  "config \<Rightarrow> api \<Rightarrow> string set \<Rightarrow> int \<Rightarrow> raw_tx \<Rightarrow> (string \<times> string) list \<Rightarrow> sampler
     \<Rightarrow> error + sampler" where
  "arb_token_loop cfg a tokens_to_find block_number tx [] st = Inr st"
| "arb_token_loop cfg a tokens_to_find block_number tx ((token_name, token_address) # rest) st =
     (if token_name \<notin> tokens_to_find
      then arb_token_loop cfg a tokens_to_find block_number tx rest st
      else (case fst (snd st) token_name of
              None \<Rightarrow> Inl KeyError
            | Some c \<Rightarrow>
                if c \<ge> MAX_NETWORK_EXAMPLES cfg
                then arb_token_loop cfg a tokens_to_find block_number tx rest st
                else ebind (arb_is_token_transfer tx token_address) (\<lambda>is_transfer.
                       if is_transfer
                       then ebind (arb_take_transfer a block_number tx token_name st)
                              (arb_token_loop cfg a tokens_to_find block_number tx rest)
                       else arb_token_loop cfg a tokens_to_find block_number tx rest st)))"

text \<open>
  The loop \<^verbatim>\<open>for tx_index, tx in enumerate(txs_in_block)\<close>: a transaction sent from
  \<^verbatim>\<open>MY_ADDRESS\<close> is skipped before the tokens are tried.
\<close>

fun arb_tx_loop ::
  "config \<Rightarrow> api \<Rightarrow> string set \<Rightarrow> int \<Rightarrow> raw_tx list \<Rightarrow> sampler \<Rightarrow> error + sampler" where
  "arb_tx_loop cfg a tokens_to_find block_number [] st = Inr st"
| "arb_tx_loop cfg a tokens_to_find block_number (tx # txs) st =
     ebind (str_lower (dget (tx_from tx) (JStr []))) (\<lambda>sender.
       if sender = lower (MY_ADDRESS cfg)
       then arb_tx_loop cfg a tokens_to_find block_number txs st
       else ebind (arb_token_loop cfg a tokens_to_find block_number tx (NETWORK_TOKENS cfg) st)
              (arb_tx_loop cfg a tokens_to_find block_number txs))"

fun arb_block_loop ::
  "config \<Rightarrow> api \<Rightarrow> string set \<Rightarrow> int list \<Rightarrow> transfer list \<times> call list
     \<Rightarrow> error + (transfer list \<times> call list)" where
  "arb_block_loop cfg a tokens_to_find [] st = Inr st"
| "arb_block_loop cfg a tokens_to_find (block_number # rest) (network_data, calls) =
     (case get_block_transactions a calls block_number of
        (txs_in_block, calls1) \<Rightarrow>
          ebind (arb_tx_loop cfg a tokens_to_find block_number txs_in_block
                   (network_data, (\<lambda>t. if t \<in> tokens_to_find then Some 0 else None), calls1))
            (\<lambda>st1. arb_block_loop cfg a tokens_to_find rest (fst st1, snd (snd st1))))"

definition arb_collect_network_transfers ::
  "config \<Rightarrow> api \<Rightarrow> int list \<Rightarrow> string set \<Rightarrow> call list
     \<Rightarrow> error + (transfer list \<times> call list)" where
  "arb_collect_network_transfers cfg a blocks tokens_to_find calls =
     arb_block_loop cfg a tokens_to_find blocks ([], calls)"

subsection \<open>\<^verbatim>\<open>analyze_data\<close> (the same text in both files)\<close>

text \<open>
  The value of one token in \<^verbatim>\<open>my_stats\<close> or \<^verbatim>\<open>network_stats\<close>. The four \<^verbatim>\<open>avg_\<close> keys are
  absent until the last loop of \<^verbatim>\<open>analyze_data\<close> sets them.
\<close>

record token_stats =
  st_count :: int
  total_gas_used :: int
  total_gas_price :: int
  total_gas_limit :: int
  total_fee :: int
  avg_gas_used :: "rat option"
  avg_gas_price :: "rat option"
  avg_gas_limit :: "rat option"
  avg_fee :: "rat option"

text \<open>The value the \<^verbatim>\<open>defaultdict\<close> creates for a token met for the first time.\<close>

definition new_stats :: token_stats where
  "new_stats =
     \<lparr>st_count = 0, total_gas_used = 0, total_gas_price = 0, total_gas_limit = 0,
      total_fee = 0, avg_gas_used = None, avg_gas_price = None, avg_gas_limit = None,
      avg_fee = None\<rparr>"

text \<open>
  A dictionary keeps its keys in insertion order: an association list with
  \<^const>\<open>AList.update\<close>, which replaces the value of a key in place and appends a new key.
  The body of the loops \<^verbatim>\<open>for tx in data[...]\<close>:
\<close>

definition add_transfer ::
  "transfer \<Rightarrow> (string \<times> token_stats) list \<Rightarrow> (string \<times> token_stats) list" where
  "add_transfer tx stats =
     (let token = t_token tx;
          cur = (case map_of stats token of None \<Rightarrow> new_stats | Some s \<Rightarrow> s)
      in AList.update token
           (cur\<lparr>st_count := st_count cur + 1,
                total_gas_used := total_gas_used cur + t_gas_used tx,
                total_gas_price := total_gas_price cur + t_gas_price tx,
                total_gas_limit := total_gas_limit cur + t_gas_limit tx,
                total_fee := total_fee cur + t_fee tx\<rparr>)
           stats)"

fun tally ::
  "transfer list \<Rightarrow> (string \<times> token_stats) list \<Rightarrow> (string \<times> token_stats) list" where
  "tally [] stats = stats"
| "tally (tx # txs) stats = tally txs (add_transfer tx stats)"

text \<open>The body of the loop \<^verbatim>\<open>for token in stats\<close>.\<close>

definition set_averages :: "token_stats \<Rightarrow> error + token_stats" where
  "set_averages s =
     (if st_count s > 0 then
        ebind (truediv (of_int (total_gas_used s)) (of_int (st_count s))) (\<lambda>a_used.
        ebind (truediv (of_int (total_gas_price s)) (of_int (st_count s))) (\<lambda>a_price.
        ebind (truediv (of_int (total_gas_limit s)) (of_int (st_count s))) (\<lambda>a_limit.
        ebind (truediv (of_int (total_fee s)) (of_int (st_count s))) (\<lambda>a_fee.
          Inr (s\<lparr>avg_gas_used := Some a_used, avg_gas_price := Some a_price,
                 avg_gas_limit := Some a_limit, avg_fee := Some a_fee\<rparr>)))))
      else Inr s)"

fun averages_loop ::
  "(string \<times> token_stats) list \<Rightarrow> error + (string \<times> token_stats) list" where
  "averages_loop [] = Inr []"
| "averages_loop ((token, s) # rest) =
     ebind (set_averages s) (\<lambda>s'.
     ebind (averages_loop rest) (\<lambda>rest'. Inr ((token, s') # rest')))"

definition analyze_data ::
  "transfer list \<Rightarrow> transfer list
     \<Rightarrow> error + ((string \<times> token_stats) list \<times> (string \<times> token_stats) list)" where
  "analyze_data my_transactions network_transfers =
     (let my_stats = tally my_transactions [];
          network_stats = tally network_transfers []
      in ebind (averages_loop my_stats) (\<lambda>my_stats'.
         ebind (averages_loop network_stats) (\<lambda>network_stats'.
           Inr (my_stats', network_stats'))))"


subsection \<open>\<^verbatim>\<open>generate_report\<close>\<close>

text \<open>
  \<^verbatim>\<open>((mine - network) / network * 100) if network > 0 else 0\<close>, the expression of
  \<^verbatim>\<open>fee_diff_percent\<close>, \<^verbatim>\<open>gas_limit_diff_percent\<close> and, in \<^verbatim>\<open>arbitrum.py\<close>, of
  \<^verbatim>\<open>gas_used_diff_percent\<close> and \<^verbatim>\<open>gas_price_diff_percent\<close>.
\<close>

definition diff_percent :: "rat \<Rightarrow> rat \<Rightarrow> error + rat" where
  "diff_percent mine network =
     (if network > 0
      then ebind (truediv (mine - network) network) (\<lambda>q. Inr (q * 100))
      else Inr 0)"

text \<open>A row of the table, with its numbers before they are formatted.\<close>

record report_row =
  r_token :: string
  r_my_count :: int
  r_network_count :: int
  r_fee_diff_percent :: rat
  r_gas_limit_diff_percent :: rat

fun eth_generate_report ::
  "(string \<times> token_stats) list \<Rightarrow> (string \<times> token_stats) list \<Rightarrow> string list
     \<Rightarrow> error + report_row list" where
  "eth_generate_report my_stats network_stats [] = Inr []"
| "eth_generate_report my_stats network_stats (token_name # rest) =
     (case (map_of my_stats token_name, map_of network_stats token_name) of
        (Some my_data, Some network_data) \<Rightarrow>
          ebind (diff_percent (dget (avg_fee my_data) 0) (dget (avg_fee network_data) 0))
            (\<lambda>fee_diff_percent.
          ebind (diff_percent (dget (avg_gas_limit my_data) 0)
                   (dget (avg_gas_limit network_data) 0))
            (\<lambda>gas_limit_diff_percent.
          ebind (eth_generate_report my_stats network_stats rest) (\<lambda>rows.
            Inr (\<lparr>r_token = token_name,
                   r_my_count = st_count my_data,
                   r_network_count = st_count network_data,
                   r_fee_diff_percent = fee_diff_percent,
                   r_gas_limit_diff_percent = gas_limit_diff_percent\<rparr> # rows))))
      | _ \<Rightarrow> eth_generate_report my_stats network_stats rest)"

subsection \<open>\<^verbatim>\<open>main\<close>\<close>

record output_data =
  blocks_analyzed :: "int list"
  tokens_analyzed :: "string list"
  my_transactions :: "transfer list"
  network_transfers :: "transfer list"




section \<open>Observations on a run\<close>

text \<open>The blocks whose transactions a run asked for, in the order of the requests.\<close>

fun scanned_blocks :: "call list \<Rightarrow> int list" where
  "scanned_blocks [] = []"
| "scanned_blocks (GetBlock b # cs) = b # scanned_blocks cs"
| "scanned_blocks (c # cs) = scanned_blocks cs"


text \<open>The number of records of a sample that carry a token.\<close>

definition records_of :: "string \<Rightarrow> transfer list \<Rightarrow> nat" where
  "records_of token data = length (filter (\<lambda>r. t_token r = token) data)"

text \<open>
  What holds inside one block of \<^verbatim>\<open>collect_network_transfers\<close>, between the assignment of
  \<^verbatim>\<open>token_counters\<close> and the end of the block: the records appended so far all carry the
  number of the block, no token has more of them than its counter says, every counter is
  between 0 and the cap, and no other block was asked for.
\<close>

definition in_block :: "int \<Rightarrow> int \<Rightarrow> transfer list \<Rightarrow> int list \<Rightarrow> sampler \<Rightarrow> bool" where
  "in_block cap block_number data0 scanned st =
     (case st of (network_data, token_counters, calls) \<Rightarrow>
        (\<exists>new. network_data = data0 @ new
           \<and> (\<forall>r \<in> set new. t_block r = block_number)
           \<and> (\<forall>t. int (records_of t new) \<le> (case token_counters t of None \<Rightarrow> 0 | Some c \<Rightarrow> c)))
        \<and> (\<forall>t c. token_counters t = Some c \<longrightarrow> 0 \<le> c \<and> c \<le> max 0 cap)
        \<and> scanned_blocks calls = scanned)"

text \<open>
  A bound on the records a pass over \<open>blocks\<close> appended: per token, and per token and
  block number.
\<close>

definition pass_bound :: "int \<Rightarrow> int list \<Rightarrow> transfer list \<Rightarrow> bool" where
  "pass_bound cap blocks new =
     ((\<forall>t. int (records_of t new) \<le> max 0 cap * int (length blocks))
      \<and> (\<forall>t b. int (length (filter (\<lambda>r. t_token r = t \<and> t_block r = b) new))
                 \<le> max 0 cap * int (count_list blocks b)))"


section \<open>Example runs\<close>

text \<open>
  A native transfer of 1 ether as a block lists it, with its receipt, and an explorer
  that answers every block request with the transactions \<open>txs_of\<close> gives for the block
  and every \<^verbatim>\<open>txlist\<close> request with \<open>own\<close>.
\<close>

definition native_transfer :: "string \<Rightarrow> string \<Rightarrow> string \<Rightarrow> raw_tx" where
  "native_transfer h sender payload =
     \<lparr>tx_hash = Some (JStr h), tx_from = Some (JStr sender), tx_to = Some (JStr ''0xb0b''),
      tx_value = Some (JStr ''0xde0b6b3a7640000''), tx_input = Some (JStr payload),
      tx_gasPrice = Some (JStr ''0x3b9aca00''), tx_gas = Some (JStr ''0x5208''),
      tx_gasUsed = None, tx_blockNumber = None\<rparr>"

definition own_transfer :: "string \<Rightarrow> string \<Rightarrow> raw_tx" where
  "own_transfer h block_number =
     \<lparr>tx_hash = Some (JStr h), tx_from = Some (JStr ''0xA11CE''), tx_to = Some (JStr ''0xb0b''),
      tx_value = Some (JStr ''1000000000000000000''), tx_input = Some (JStr ''0x''),
      tx_gasPrice = Some (JStr ''1000000000''), tx_gas = Some (JStr ''21000''),
      tx_gasUsed = Some (JStr ''21000''), tx_blockNumber = Some (JStr block_number)\<rparr>"

definition example_api :: "raw_tx list \<Rightarrow> (int \<Rightarrow> raw_tx list) \<Rightarrow> api" where
  "example_api own txs_of =
     \<lparr>transactions_of = (\<lambda>calls address contract_address limit. own),
      block_transactions_of = (\<lambda>calls block_number. txs_of block_number),
      receipt_of = (\<lambda>calls h. Some \<lparr>rc_gasUsed = Some (JStr ''0x5208'')\<rparr>)\<rparr>"

definition example_config :: "int \<Rightarrow> config" where
  "example_config cap =
     \<lparr>MY_ADDRESS = ''0xa11ce'', API_KEY = ''KEY'',
      NETWORK_TOKENS = [(''eth'', ZERO_ADDRESS)],
      MAX_MY_TRANSACTIONS = 10, MAX_NETWORK_EXAMPLES = cap\<rparr>"

text \<open>Two blocks with one native transfer of another sender each.\<close>

definition two_blocks :: "int \<Rightarrow> raw_tx list" where
  "two_blocks block_number =
     (if block_number = 100 then [native_transfer ''0xh1'' ''0xcafe'' ''0x'']
      else if block_number = 101 then [native_transfer ''0xh2'' ''0xcafe'' ''0x'']
      else [])"

text \<open>A block whose only transaction was sent by the configured address, in other letter case.\<close>

definition own_traffic :: "int \<Rightarrow> raw_tx list" where
  "own_traffic block_number = [native_transfer ''0xh3'' ''0xA11CE'' ''0x'']"

text \<open>An unconfirmed transaction, and an explorer with fixed answers.\<close>

definition unconfirmed_tx :: ltc_tx where
  "unconfirmed_tx =
     \<lparr>ltx_fee = Some 200, ltx_weight = Some 400, ltx_size = Some 150,
      ltx_vin = Some [\<lparr>is_coinbase = Some False\<rparr>], ltx_vout = Some [1000],
      ltx_status = Some \<lparr>confirmed = Some False, block_height = None\<rparr>\<rparr>"

definition ltc_example_api :: "ltc_tx list \<Rightarrow> int \<Rightarrow> (int \<Rightarrow> ltc_tx list) \<Rightarrow> ltc_api" where
  "ltc_example_api own current_height txs_of =
     \<lparr>address_txs = (\<lambda>calls. Some own),
      blockchain_status = (\<lambda>calls. Some \<lparr>st_blocks = Some current_height\<rparr>),
      blocks_page = (\<lambda>calls. None),
      block_txs = (\<lambda>calls height. txs_of height)\<rparr>"


text \<open>A chain of height 100 whose last block holds one transaction.\<close>

definition last_block_only :: "int \<Rightarrow> ltc_tx list" where
  "last_block_only height = (if height = 100 then [six_inputs 300] else [])"


text \<open>
  The totals of a token after the transactions \<open>sel\<close> were added to \<open>s\<close>, and the value
  of a token after the last loop of \<^verbatim>\<open>analyze_data\<close>.
\<close>

definition add_all :: "transfer list \<Rightarrow> token_stats \<Rightarrow> token_stats" where
  "add_all sel s =
     s\<lparr>st_count := st_count s + int (length sel),
       total_gas_used := total_gas_used s + sum_list (map t_gas_used sel),
       total_gas_price := total_gas_price s + sum_list (map t_gas_price sel),
       total_gas_limit := total_gas_limit s + sum_list (map t_gas_limit sel),
       total_fee := total_fee s + sum_list (map t_fee sel)\<rparr>"


section \<open>Verified properties: Litecoin\<close>

lemma calculate_fee_per_byte_eq:
  "calculate_fee_per_byte tx =
     Inr (if (if dget (ltx_weight tx) 0 > 0 then of_int (dget (ltx_weight tx) 0) / 4
                 else of_int (dget (ltx_size tx) 1)) > (0::rat)
             then of_int (dget (ltx_fee tx) 0) /
                  (if dget (ltx_weight tx) 0 > 0 then of_int (dget (ltx_weight tx) 0) / 4
                   else of_int (dget (ltx_size tx) 1))
             else 0,
          if dget (ltx_weight tx) 0 > 0 then of_int (dget (ltx_weight tx) 0) / 4
          else of_int (dget (ltx_size tx) 1))"
  by (simp add: calculate_fee_per_byte_def truediv_def Let_def)

lemma is_cpfp_transaction_eq:
  "calculate_fee_per_byte tx = Inr (fpb, vsize) \<Longrightarrow>
     is_cpfp_transaction tx = Inr (length (dget (ltx_vin tx) []) > 5 \<and> fpb < 2)"
  by (auto simp add: calculate_fee_per_byte_def is_cpfp_transaction_def truediv_def Let_def
      split: if_splits)

lemma network_tx_step_eq:
  "calculate_fee_per_byte tx = Inr (fpb, vsize) \<Longrightarrow>
     network_tx_step tx acc =
       Inr (if list_ex (\<lambda>vin. dget (is_coinbase vin) False) (dget (ltx_vin tx) [])
               \<or> (length (dget (ltx_vin tx) []) > 5 \<and> fpb < 2)
               \<or> \<not> (0 < fpb \<and> fpb \<le> MAX_FEE)
            then acc
            else acc @ [\<lparr>s_fee_per_byte = fpb,
                          s_size = dget (ltx_size tx) 0,
                          s_weight = dget (ltx_weight tx) 0,
                          s_inputs = length (dget (ltx_vin tx) []),
                          s_outputs = length (dget (ltx_vout tx) []),
                          s_vsize = vsize\<rparr>])"
  by (simp add: network_tx_step_def is_cpfp_transaction_eq)

lemma our_tx_step_eq:
  "calculate_fee_per_byte tx = Inr (fpb, vsize) \<Longrightarrow>
     our_tx_step tx acc =
       Inr (if tx_confirmed tx
            then \<lparr>fees = fees acc @ [fpb],
                  sizes = sizes acc @ [dget (ltx_size tx) 0],
                  weights = weights acc @ [dget (ltx_weight tx) 0],
                  inputs = inputs acc @ [length (dget (ltx_vin tx) [])],
                  outputs = outputs acc @ [length (dget (ltx_vout tx) [])]\<rparr>
            else acc)"
  by (simp add: our_tx_step_def)

lemma six_inputs_fee_150: "calculate_fee_per_byte (six_inputs 150) = Inr (3 / 2, 100)"
  by (simp add: six_inputs_def calculate_fee_per_byte_def truediv_def dget_def)

lemma six_inputs_fee_300: "calculate_fee_per_byte (six_inputs 300) = Inr (3, 100)"
  by (simp add: six_inputs_def calculate_fee_per_byte_def truediv_def dget_def)

text \<open>
  C9. \<^verbatim>\<open>calculate_fee_per_byte\<close> returns for every transaction record and never divides by
  zero: the virtual size is \<open>weight / 4\<close> when the weight is positive and the byte size
  otherwise (1 when the record has no size), and the fee per byte is the fee divided by
  the virtual size when that is positive and exactly 0 otherwise.
\<close>

theorem calculate_fee_per_byte_total:
  "\<exists>fee_per_byte vsize.
     calculate_fee_per_byte tx = Inr (fee_per_byte, vsize)
     \<and> vsize = (if dget (ltx_weight tx) 0 > 0 then of_int (dget (ltx_weight tx) 0) / 4
                else of_int (dget (ltx_size tx) 1))
     \<and> fee_per_byte = (if vsize > 0 then of_int (dget (ltx_fee tx) 0) / vsize else 0)"
  by (simp add: calculate_fee_per_byte_eq)



section \<open>Verified properties: the samplers of Ethereum and Arbitrum\<close>

lemma ebind_Inr_iff: "ebind m f = Inr y \<longleftrightarrow> (\<exists>v. m = Inr v \<and> f v = Inr y)"
  by (cases m) (simp_all add: ebind_def)

lemma scanned_blocks_append: "scanned_blocks (xs @ ys) = scanned_blocks xs @ scanned_blocks ys"
  by (induction xs rule: scanned_blocks.induct) simp_all

lemma records_of_append: "records_of t (xs @ ys) = records_of t xs + records_of t ys"
  by (simp add: records_of_def)

lemma in_block_receipt:
  "in_block cap b data0 scanned (d, c, calls) \<Longrightarrow>
   in_block cap b data0 scanned (d, c, calls @ [GetReceipt h])"
  by (simp add: in_block_def scanned_blocks_append)

lemma in_block_append:
  assumes inv: "in_block cap b data0 scanned (d, counters, calls)"
    and c: "counters name = Some c" and lt: "c < cap" and blk: "t_block r = b"
    and tok: "t_token r = name"
  shows "in_block cap b data0 scanned (d @ [r], counters(name \<mapsto> c + 1), calls @ [GetReceipt h])"
proof -
  from inv obtain new where new: "d = data0 @ new" "\<forall>r \<in> set new. t_block r = b"
      "\<forall>t. int (records_of t new) \<le> (case counters t of None \<Rightarrow> 0 | Some c \<Rightarrow> c)"
    and bound: "\<forall>t c. counters t = Some c \<longrightarrow> 0 \<le> c \<and> c \<le> max 0 cap"
    and sc: "scanned_blocks calls = scanned"
    by (auto simp add: in_block_def)
  have "d @ [r] = data0 @ (new @ [r])" using new by simp
  moreover have "\<forall>x \<in> set (new @ [r]). t_block x = b" using new blk by simp
  moreover have "\<forall>t. int (records_of t (new @ [r]))
      \<le> (case (counters(name \<mapsto> c + 1)) t of None \<Rightarrow> 0 | Some c \<Rightarrow> c)"
  proof
    fix t
    show "int (records_of t (new @ [r]))
      \<le> (case (counters(name \<mapsto> c + 1)) t of None \<Rightarrow> 0 | Some c \<Rightarrow> c)"
      using new(3)[rule_format, of t] c tok
      by (cases "t = name") (auto simp add: records_of_def)
  qed
  moreover have "\<forall>t c'. (counters(name \<mapsto> c + 1)) t = Some c' \<longrightarrow> 0 \<le> c' \<and> c' \<le> max 0 cap"
    using bound c lt by (auto split: if_splits)
  ultimately show ?thesis using sc
    unfolding in_block_def by (simp add: scanned_blocks_append)
qed

lemma eth_take_transfer_inv:
  assumes "eth_take_transfer a b tx name st = Inr st'"
    and "in_block cap b data0 scanned st"
    and "fst (snd st) name = Some c" and "c < cap"
  shows "in_block cap b data0 scanned st'"
proof -
  obtain d counters calls where st: "st = (d, counters, calls)" by (cases st) auto
  show ?thesis
  proof (cases "receipt_of a calls (dget (tx_hash tx) (JStr []))")
    case None
    with assms st show ?thesis
      by (auto simp add: eth_take_transfer_def get_transaction_receipt_def in_block_receipt)
  next
    case (Some r)
    with assms st show ?thesis
      by (auto simp add: eth_take_transfer_def get_transaction_receipt_def ebind_Inr_iff
          intro!: in_block_append)
  qed
qed

lemma eth_token_loop_inv:
  "eth_token_loop cfg a toks b tx items st = Inr st' \<Longrightarrow>
   in_block (MAX_NETWORK_EXAMPLES cfg) b data0 scanned st \<Longrightarrow>
   in_block (MAX_NETWORK_EXAMPLES cfg) b data0 scanned st'"
proof (induction items arbitrary: st)
  case Nil
  then show ?case by simp
next
  case (Cons item items)
  obtain name addr where item: "item = (name, addr)" by (cases item) auto
  show ?case
  proof (cases "name \<in> toks")
    case False
    with Cons item show ?thesis by simp
  next
    case True
    with Cons.prems item obtain c where c: "fst (snd st) name = Some c"
      by (auto split: option.splits)
    show ?thesis
    proof (cases "c \<ge> MAX_NETWORK_EXAMPLES cfg")
      case True
      with Cons item c \<open>name \<in> toks\<close> show ?thesis by simp
    next
      case False
      with Cons.prems item c \<open>name \<in> toks\<close> obtain is_transfer where
        it: "eth_is_token_transfer tx addr = Inr is_transfer"
        and rest: "(if is_transfer
                    then ebind (eth_take_transfer a b tx name st)
                           (eth_token_loop cfg a toks b tx items)
                    else eth_token_loop cfg a toks b tx items st) = Inr st'"
        by (auto simp add: ebind_Inr_iff)
      show ?thesis
      proof (cases is_transfer)
        case False
        with rest Cons show ?thesis by simp
      next
        case True
        with rest obtain st1 where st1: "eth_take_transfer a b tx name st = Inr st1"
          and l: "eth_token_loop cfg a toks b tx items st1 = Inr st'"
          by (auto simp add: ebind_Inr_iff)
        from eth_take_transfer_inv[OF st1 Cons.prems(2) c] \<open>\<not> c \<ge> MAX_NETWORK_EXAMPLES cfg\<close>
        have "in_block (MAX_NETWORK_EXAMPLES cfg) b data0 scanned st1" by simp
        with Cons.IH l show ?thesis by blast
      qed
    qed
  qed
qed

lemma eth_tx_loop_inv:
  "eth_tx_loop cfg a toks b txs st = Inr st' \<Longrightarrow>
   in_block (MAX_NETWORK_EXAMPLES cfg) b data0 scanned st \<Longrightarrow>
   in_block (MAX_NETWORK_EXAMPLES cfg) b data0 scanned st'"
proof (induction txs arbitrary: st)
  case Nil
  then show ?case by simp
next
  case (Cons tx txs)
  then show ?case
    by (auto simp add: ebind_Inr_iff dest: eth_token_loop_inv)
qed

lemma in_block_start:
  "in_block cap b data (scanned_blocks calls)
     (data, (\<lambda>t. if t \<in> toks then Some 0 else None), calls)"
  by (auto simp add: in_block_def records_of_def)

lemma in_block_end:
  assumes "in_block cap b data scanned st"
  shows "\<exists>new. fst st = data @ new \<and> (\<forall>r \<in> set new. t_block r = b)
           \<and> (\<forall>t. int (records_of t new) \<le> max 0 cap)
           \<and> scanned_blocks (snd (snd st)) = scanned"
proof -
  obtain d counters calls where st: "st = (d, counters, calls)" by (cases st) auto
  from assms st obtain new where new: "d = data @ new" "\<forall>r \<in> set new. t_block r = b"
      "\<forall>t. int (records_of t new) \<le> (case counters t of None \<Rightarrow> 0 | Some c \<Rightarrow> c)"
    and bound: "\<forall>t c. counters t = Some c \<longrightarrow> 0 \<le> c \<and> c \<le> max 0 cap"
    and sc: "scanned_blocks calls = scanned"
    by (auto simp add: in_block_def)
  have "\<forall>t. int (records_of t new) \<le> max 0 cap"
  proof
    fix t
    show "int (records_of t new) \<le> max 0 cap"
      using new(3)[rule_format, of t] bound[rule_format, of t]
      by (cases "counters t") auto
  qed
  with new sc st show ?thesis by auto
qed

text \<open>The records of a token that carry a given block number.\<close>

lemma records_in_block_le:
  assumes "\<forall>r \<in> set new. t_block r = b'"
    and "int (records_of t new) \<le> m" and "0 \<le> m"
  shows "int (length (filter (\<lambda>r. t_token r = t \<and> t_block r = b) new))
           \<le> (if b = b' then m else 0)"
proof (cases "b = b'")
  case True
  have "filter (\<lambda>r. t_token r = t \<and> t_block r = b) new = filter (\<lambda>r. t_token r = t) new"
    using assms(1) True by (auto intro: filter_cong)
  with assms True show ?thesis by (simp add: records_of_def)
next
  case False
  have "filter (\<lambda>r. t_token r = t \<and> t_block r = b) new = []"
    using assms(1) False by (auto simp add: filter_empty_conv)
  with False show ?thesis by simp
qed

lemma pass_bound_Nil: "pass_bound cap [] []"
  by (simp add: pass_bound_def records_of_def)

lemma pass_bound_Cons:
  assumes seg: "\<forall>r \<in> set seg. t_block r = b'" "\<forall>t. int (records_of t seg) \<le> max 0 cap"
    and rest: "pass_bound cap blocks new"
  shows "pass_bound cap (b' # blocks) (seg @ new)"
proof -
  have 1: "int (records_of t (seg @ new)) \<le> max 0 cap * int (length (b' # blocks))" for t
  proof -
    have "int (records_of t new) \<le> max 0 cap * int (length blocks)"
      using rest by (simp add: pass_bound_def)
    with seg(2)[rule_format, of t] show ?thesis
      by (simp add: records_of_append algebra_simps)
  qed
  have 2: "int (length (filter (\<lambda>r. t_token r = t \<and> t_block r = b) (seg @ new)))
             \<le> max 0 cap * int (count_list (b' # blocks) b)" for t b
  proof -
    have "int (length (filter (\<lambda>r. t_token r = t \<and> t_block r = b) seg))
            \<le> (if b = b' then max 0 cap else 0)"
      using records_in_block_le[OF seg(1) seg(2)[rule_format, of t]] by simp
    moreover have "int (length (filter (\<lambda>r. t_token r = t \<and> t_block r = b) new))
            \<le> max 0 cap * int (count_list blocks b)"
      using rest by (simp add: pass_bound_def)
    ultimately show ?thesis by (auto simp add: algebra_simps)
  qed
  from 1 2 show ?thesis unfolding pass_bound_def by blast
qed

lemma eth_block_loop_bound:
  "eth_block_loop cfg a toks blocks (data, calls) = Inr (data', calls') \<Longrightarrow>
   \<exists>new. data' = data @ new \<and> pass_bound (MAX_NETWORK_EXAMPLES cfg) blocks new
      \<and> scanned_blocks calls' = scanned_blocks calls @ blocks"
proof (induction blocks arbitrary: data calls)
  case Nil
  then show ?case by (simp add: pass_bound_Nil)
next
  case (Cons b blocks)
  let ?calls1 = "calls @ [GetBlock b]"
  from Cons.prems obtain st1 where
    tx: "eth_tx_loop cfg a toks b (block_transactions_of a calls b)
           (data, (\<lambda>t. if t \<in> toks then Some 0 else None), ?calls1) = Inr st1"
    and rest: "eth_block_loop cfg a toks blocks (fst st1, snd (snd st1)) = Inr (data', calls')"
    by (auto simp add: get_block_transactions_def ebind_Inr_iff)
  from in_block_end[OF eth_tx_loop_inv[OF tx in_block_start]]
  obtain seg where seg: "fst st1 = data @ seg" "\<forall>r \<in> set seg. t_block r = b"
      "\<forall>t. int (records_of t seg) \<le> max 0 (MAX_NETWORK_EXAMPLES cfg)"
      "scanned_blocks (snd (snd st1)) = scanned_blocks ?calls1"
    by blast
  from Cons.IH[OF rest] obtain new where new: "data' = fst st1 @ new"
      "pass_bound (MAX_NETWORK_EXAMPLES cfg) blocks new"
      "scanned_blocks calls' = scanned_blocks (snd (snd st1)) @ blocks"
    by blast
  have "data' = data @ (seg @ new)" using seg new by simp
  moreover have "pass_bound (MAX_NETWORK_EXAMPLES cfg) (b # blocks) (seg @ new)"
    using pass_bound_Cons[OF seg(2) seg(3) new(2)] .
  moreover have "scanned_blocks calls' = scanned_blocks calls @ b # blocks"
    using seg(4) new(3) by (simp add: scanned_blocks_append)
  ultimately show ?case by blast
qed

lemma arb_take_transfer_inv:
  assumes "arb_take_transfer a b tx name st = Inr st'"
    and "in_block cap b data0 scanned st"
    and "fst (snd st) name = Some c" and "c < cap"
  shows "in_block cap b data0 scanned st'"
proof -
  obtain d counters calls where st: "st = (d, counters, calls)" by (cases st) auto
  show ?thesis
  proof (cases "receipt_of a calls (dget (tx_hash tx) (JStr ''N/A''))")
    case None
    with assms st show ?thesis
      by (auto simp add: arb_take_transfer_def get_transaction_receipt_def in_block_receipt)
  next
    case (Some r)
    with assms st show ?thesis
      by (auto simp add: arb_take_transfer_def get_transaction_receipt_def ebind_Inr_iff
          intro!: in_block_append)
  qed
qed

lemma arb_token_loop_inv:
  "arb_token_loop cfg a toks b tx items st = Inr st' \<Longrightarrow>
   in_block (MAX_NETWORK_EXAMPLES cfg) b data0 scanned st \<Longrightarrow>
   in_block (MAX_NETWORK_EXAMPLES cfg) b data0 scanned st'"
proof (induction items arbitrary: st)
  case Nil
  then show ?case by simp
next
  case (Cons item items)
  obtain name addr where item: "item = (name, addr)" by (cases item) auto
  show ?case
  proof (cases "name \<in> toks")
    case False
    with Cons item show ?thesis by simp
  next
    case True
    with Cons.prems item obtain c where c: "fst (snd st) name = Some c"
      by (auto split: option.splits)
    show ?thesis
    proof (cases "c \<ge> MAX_NETWORK_EXAMPLES cfg")
      case True
      with Cons item c \<open>name \<in> toks\<close> show ?thesis by simp
    next
      case False
      with Cons.prems item c \<open>name \<in> toks\<close> obtain is_transfer where
        it: "arb_is_token_transfer tx addr = Inr is_transfer"
        and rest: "(if is_transfer
                    then ebind (arb_take_transfer a b tx name st)
                           (arb_token_loop cfg a toks b tx items)
                    else arb_token_loop cfg a toks b tx items st) = Inr st'"
        by (auto simp add: ebind_Inr_iff)
      show ?thesis
      proof (cases is_transfer)
        case False
        with rest Cons show ?thesis by simp
      next
        case True
        with rest obtain st1 where st1: "arb_take_transfer a b tx name st = Inr st1"
          and l: "arb_token_loop cfg a toks b tx items st1 = Inr st'"
          by (auto simp add: ebind_Inr_iff)
        from arb_take_transfer_inv[OF st1 Cons.prems(2) c] \<open>\<not> c \<ge> MAX_NETWORK_EXAMPLES cfg\<close>
        have "in_block (MAX_NETWORK_EXAMPLES cfg) b data0 scanned st1" by simp
        with Cons.IH l show ?thesis by blast
      qed
    qed
  qed
qed

lemma arb_tx_loop_inv:
  "arb_tx_loop cfg a toks b txs st = Inr st' \<Longrightarrow>
   in_block (MAX_NETWORK_EXAMPLES cfg) b data0 scanned st \<Longrightarrow>
   in_block (MAX_NETWORK_EXAMPLES cfg) b data0 scanned st'"
proof (induction txs arbitrary: st)
  case Nil
  then show ?case by simp
next
  case (Cons tx txs)
  from Cons.prems(1) obtain sender where
    r: "(if sender = lower (MY_ADDRESS cfg) then arb_tx_loop cfg a toks b txs st
         else ebind (arb_token_loop cfg a toks b tx (NETWORK_TOKENS cfg) st)
                (arb_tx_loop cfg a toks b txs)) = Inr st'"
    by (auto simp add: ebind_Inr_iff)
  show ?case
  proof (cases "sender = lower (MY_ADDRESS cfg)")
    case True
    with r Cons show ?thesis by simp
  next
    case False
    with r obtain st1 where
      "arb_token_loop cfg a toks b tx (NETWORK_TOKENS cfg) st = Inr st1"
      "arb_tx_loop cfg a toks b txs st1 = Inr st'"
      by (auto simp add: ebind_Inr_iff)
    with Cons arb_token_loop_inv show ?thesis by blast
  qed
qed

lemma arb_block_loop_bound:
  "arb_block_loop cfg a toks blocks (data, calls) = Inr (data', calls') \<Longrightarrow>
   \<exists>new. data' = data @ new \<and> pass_bound (MAX_NETWORK_EXAMPLES cfg) blocks new
      \<and> scanned_blocks calls' = scanned_blocks calls @ blocks"
proof (induction blocks arbitrary: data calls)
  case Nil
  then show ?case by (simp add: pass_bound_Nil)
next
  case (Cons b blocks)
  let ?calls1 = "calls @ [GetBlock b]"
  from Cons.prems obtain st1 where
    tx: "arb_tx_loop cfg a toks b (block_transactions_of a calls b)
           (data, (\<lambda>t. if t \<in> toks then Some 0 else None), ?calls1) = Inr st1"
    and rest: "arb_block_loop cfg a toks blocks (fst st1, snd (snd st1)) = Inr (data', calls')"
    by (auto simp add: get_block_transactions_def ebind_Inr_iff)
  from in_block_end[OF arb_tx_loop_inv[OF tx in_block_start]]
  obtain seg where seg: "fst st1 = data @ seg" "\<forall>r \<in> set seg. t_block r = b"
      "\<forall>t. int (records_of t seg) \<le> max 0 (MAX_NETWORK_EXAMPLES cfg)"
      "scanned_blocks (snd (snd st1)) = scanned_blocks ?calls1"
    by blast
  from Cons.IH[OF rest] obtain new where new: "data' = fst st1 @ new"
      "pass_bound (MAX_NETWORK_EXAMPLES cfg) blocks new"
      "scanned_blocks calls' = scanned_blocks (snd (snd st1)) @ blocks"
    by blast
  have "data' = data @ (seg @ new)" using seg new by simp
  moreover have "pass_bound (MAX_NETWORK_EXAMPLES cfg) (b # blocks) (seg @ new)"
    using pass_bound_Cons[OF seg(2) seg(3) new(2)] .
  moreover have "scanned_blocks calls' = scanned_blocks calls @ b # blocks"
    using seg(4) new(3) by (simp add: scanned_blocks_append)
  ultimately show ?case by blast
qed

lemma count_list_distinct: "distinct xs \<Longrightarrow> count_list xs x \<le> 1"
  by (induction xs) auto

lemma pass_bound_total:
  "pass_bound cap blocks new \<Longrightarrow>
     int (records_of t new) \<le> max 0 cap * int (length blocks)
     \<and> (distinct blocks \<longrightarrow>
          int (length (filter (\<lambda>r. t_token r = t \<and> t_block r = b) new)) \<le> max 0 cap)"
proof -
  assume pb: "pass_bound cap blocks new"
  have 1: "int (records_of t new) \<le> max 0 cap * int (length blocks)"
    using pb by (simp add: pass_bound_def)
  have 2: "int (length (filter (\<lambda>r. t_token r = t \<and> t_block r = b) new))
            \<le> max 0 cap * int (count_list blocks b)"
    using pb by (simp add: pass_bound_def)
  have 3: "int (length (filter (\<lambda>r. t_token r = t \<and> t_block r = b) new)) \<le> max 0 cap"
    if "distinct blocks"
  proof -
    have "int (count_list blocks b) \<le> 1" using count_list_distinct[OF that, of b] by simp
    then have "max 0 cap * int (count_list blocks b) \<le> max 0 cap * 1"
      by (intro mult_left_mono) auto
    with 2 show ?thesis by simp
  qed
  from 1 3 show ?thesis by blast
qed

text \<open>
  C1 (as amended). \<^verbatim>\<open>collect_network_transfers\<close> assigns \<^verbatim>\<open>token_counters\<close> anew for every
  block, so the cap holds per block and not per pass: when the sampler returns, the records
  of one token number at most \<^verbatim>\<open>MAX_NETWORK_EXAMPLES\<close> times the number of blocks passed
  in, and, when no block is passed twice, at most \<^verbatim>\<open>MAX_NETWORK_EXAMPLES\<close> of them carry
  any one block number. This holds for both files (a cap below 0 counts as 0).
\<close>

theorem sampler_cap_holds_per_block:
  "(eth_collect_network_transfers cfg a blocks toks calls = Inr (data, calls') \<longrightarrow>
      int (records_of t data) \<le> max 0 (MAX_NETWORK_EXAMPLES cfg) * int (length blocks)
      \<and> (distinct blocks \<longrightarrow>
           int (length (filter (\<lambda>r. t_token r = t \<and> t_block r = b) data))
             \<le> max 0 (MAX_NETWORK_EXAMPLES cfg)))
   \<and> (arb_collect_network_transfers cfg a blocks toks calls = Inr (data, calls') \<longrightarrow>
      int (records_of t data) \<le> max 0 (MAX_NETWORK_EXAMPLES cfg) * int (length blocks)
      \<and> (distinct blocks \<longrightarrow>
           int (length (filter (\<lambda>r. t_token r = t \<and> t_block r = b) data))
             \<le> max 0 (MAX_NETWORK_EXAMPLES cfg)))"
proof (intro conjI impI)
  assume "eth_collect_network_transfers cfg a blocks toks calls = Inr (data, calls')"
  then obtain new where "data = [] @ new" "pass_bound (MAX_NETWORK_EXAMPLES cfg) blocks new"
    unfolding eth_collect_network_transfers_def by (blast dest: eth_block_loop_bound)
  then have pb: "pass_bound (MAX_NETWORK_EXAMPLES cfg) blocks data" by simp
  from pass_bound_total[OF pb, of t b]
  show "int (records_of t data) \<le> max 0 (MAX_NETWORK_EXAMPLES cfg) * int (length blocks)"
    by blast
  assume "distinct blocks"
  with pass_bound_total[OF pb, of t b]
  show "int (length (filter (\<lambda>r. t_token r = t \<and> t_block r = b) data))
          \<le> max 0 (MAX_NETWORK_EXAMPLES cfg)" by blast
next
  assume "arb_collect_network_transfers cfg a blocks toks calls = Inr (data, calls')"
  then obtain new where "data = [] @ new" "pass_bound (MAX_NETWORK_EXAMPLES cfg) blocks new"
    unfolding arb_collect_network_transfers_def by (blast dest: arb_block_loop_bound)
  then have pb: "pass_bound (MAX_NETWORK_EXAMPLES cfg) blocks data" by simp
  from pass_bound_total[OF pb, of t b]
  show "int (records_of t data) \<le> max 0 (MAX_NETWORK_EXAMPLES cfg) * int (length blocks)"
    by blast
  assume "distinct blocks"
  with pass_bound_total[OF pb, of t b]
  show "int (length (filter (\<lambda>r. t_token r = t \<and> t_block r = b) data))
          \<le> max 0 (MAX_NETWORK_EXAMPLES cfg)" by blast
qed

lemmas py_int_eval = py_int_def strip_def is_space_def base_prefix_def skip_underscore_def
  digit_val_def

lemmas sampler_eval = eth_collect_network_transfers_def arb_collect_network_transfers_def
  get_block_transactions_def get_transaction_receipt_def eth_take_transfer_def
  arb_take_transfer_def eth_is_token_transfer_def arb_is_token_transfer_def
  example_api_def example_config_def native_transfer_def two_blocks_def own_transfer_def
  ZERO_ADDRESS_def truthy_def int_base_def int_of_def hex_or_number_def str_lower_def
  str_startswith_def lower_def lower_char_def ebind_def dget_def py_int_eval

lemma eth_two_blocks:
  "eth_collect_network_transfers (example_config 1) (example_api [] two_blocks) [100, 101]
      {''eth''} [] =
   Inr ([\<lparr>t_token = ''eth'', t_hash = JStr ''0xh1'', t_block = 100, t_gas_used = 21000,
          t_gas_price = 1000000000, t_gas_limit = 21000, t_fee = 21000000000000\<rparr>,
         \<lparr>t_token = ''eth'', t_hash = JStr ''0xh2'', t_block = 101, t_gas_used = 21000,
          t_gas_price = 1000000000, t_gas_limit = 21000, t_fee = 21000000000000\<rparr>],
        [GetBlock 100, GetReceipt (JStr ''0xh1''), GetBlock 101, GetReceipt (JStr ''0xh2'')])"
  by (simp add: sampler_eval)

lemma arb_two_blocks:
  "arb_collect_network_transfers (example_config 1) (example_api [] two_blocks) [100, 101]
      {''eth''} [] =
   Inr ([\<lparr>t_token = ''eth'', t_hash = JStr ''0xh1'', t_block = 100, t_gas_used = 21000,
          t_gas_price = 1000000000, t_gas_limit = 21000, t_fee = 21000000000000\<rparr>,
         \<lparr>t_token = ''eth'', t_hash = JStr ''0xh2'', t_block = 101, t_gas_used = 21000,
          t_gas_price = 1000000000, t_gas_limit = 21000, t_fee = 21000000000000\<rparr>],
        [GetBlock 100, GetReceipt (JStr ''0xh1''), GetBlock 101, GetReceipt (JStr ''0xh2'')])"
  by (simp add: sampler_eval)


theorem sampler_cap_holds_per_block_witness:
  "eth_collect_network_transfers (example_config 1) (example_api [] two_blocks) [100, 101]
      {''eth''} [] =
     Inr ([\<lparr>t_token = ''eth'', t_hash = JStr ''0xh1'', t_block = 100, t_gas_used = 21000,
            t_gas_price = 1000000000, t_gas_limit = 21000, t_fee = 21000000000000\<rparr>,
           \<lparr>t_token = ''eth'', t_hash = JStr ''0xh2'', t_block = 101, t_gas_used = 21000,
            t_gas_price = 1000000000, t_gas_limit = 21000, t_fee = 21000000000000\<rparr>],
          [GetBlock 100, GetReceipt (JStr ''0xh1''), GetBlock 101, GetReceipt (JStr ''0xh2'')])
   \<and> int (records_of ''eth''
        [\<lparr>t_token = ''eth'', t_hash = JStr ''0xh1'', t_block = 100, t_gas_used = 21000,
          t_gas_price = 1000000000, t_gas_limit = 21000, t_fee = 21000000000000\<rparr>,
         \<lparr>t_token = ''eth'', t_hash = JStr ''0xh2'', t_block = 101, t_gas_used = 21000,
          t_gas_price = 1000000000, t_gas_limit = 21000, t_fee = 21000000000000\<rparr>])
       \<le> max 0 (MAX_NETWORK_EXAMPLES (example_config 1)) * int (length [100, 101 :: int])
   \<and> distinct [100, 101 :: int]
   \<and> int (length (filter (\<lambda>r. t_token r = ''eth'' \<and> t_block r = 100)
        [\<lparr>t_token = ''eth'', t_hash = JStr ''0xh1'', t_block = 100, t_gas_used = 21000,
          t_gas_price = 1000000000, t_gas_limit = 21000, t_fee = 21000000000000\<rparr>,
         \<lparr>t_token = ''eth'', t_hash = JStr ''0xh2'', t_block = 101, t_gas_used = 21000,
          t_gas_price = 1000000000, t_gas_limit = 21000, t_fee = 21000000000000\<rparr>]))
       \<le> max 0 (MAX_NETWORK_EXAMPLES (example_config 1))"
  using sampler_cap_holds_per_block [of "example_config 1" "example_api [] two_blocks"
      "[100, 101]" "{''eth''}" "[]" _ _ "''eth''" 100]
    eth_two_blocks
  by (simp add: example_config_def records_of_def)

text \<open>
  The claim as stated fails: with a cap of 1 and two blocks that hold one native transfer
  each, the Ethereum sampler returns two records of the token \<^verbatim>\<open>eth\<close>.
\<close>

theorem cap_per_pass_counterexample:
  "\<exists>data calls'.
     eth_collect_network_transfers (example_config 1) (example_api [] two_blocks) [100, 101]
       {''eth''} [] = Inr (data, calls')
     \<and> \<not> int (records_of ''eth'' data) \<le> MAX_NETWORK_EXAMPLES (example_config 1)"
  using eth_two_blocks by (simp add: records_of_def example_config_def)

section \<open>Verified properties: classification and exclusion\<close>

text \<open>
  C4. On Ethereum the native branch of \<^verbatim>\<open>is_token_transfer\<close> does not look at the payload:
  a transaction with a recipient, a positive value and call data \<^verbatim>\<open>0xdeadbeef\<close> is
  classified as a native transfer. The Arbitrum function rejects the same transaction.
\<close>

theorem eth_native_transfer_ignores_payload:
  "eth_is_token_transfer (native_transfer ''0xh1'' ''0xcafe'' ''0xdeadbeef'') ZERO_ADDRESS
     = Inr True
   \<and> arb_is_token_transfer (native_transfer ''0xh1'' ''0xcafe'' ''0xdeadbeef'') ZERO_ADDRESS
     = Inr False"
  by (simp add: sampler_eval)

text \<open>
  C3. The Ethereum sampler does not compare the sender with \<^verbatim>\<open>MY_ADDRESS\<close>: a block whose
  only transaction was sent by the configured address yields a record of the network
  sample. The Arbitrum sampler skips the same transaction.
\<close>

theorem eth_sampler_keeps_own_traffic:
  "eth_collect_network_transfers (example_config 20) (example_api [] own_traffic) [100]
      {''eth''} [] =
     Inr ([\<lparr>t_token = ''eth'', t_hash = JStr ''0xh3'', t_block = 100, t_gas_used = 21000,
            t_gas_price = 1000000000, t_gas_limit = 21000, t_fee = 21000000000000\<rparr>],
          [GetBlock 100, GetReceipt (JStr ''0xh3'')])
   \<and> arb_collect_network_transfers (example_config 20) (example_api [] own_traffic) [100]
      {''eth''} [] = Inr ([], [GetBlock 100])"
  by (simp add: sampler_eval own_traffic_def)

text \<open>
  C7. The percentage difference is \<open>(mine - network) / network * 100\<close> when the network
  value is positive and 0 otherwise, in the report of the account-model files and in the
  comparison table of Litecoin; the division is never reached with a zero divisor.
\<close>

theorem percent_difference:
  "diff_percent mine network
     = Inr (if network > 0 then (mine - network) / network * 100 else 0)
   \<and> ltc_diff_percent (mine - network) network
     = Inr (if network > 0 then (mine - network) / network * 100 else 0)
   \<and> diff_percent x 0 = Inr 0
   \<and> diff_percent 110 100 = Inr 10
   \<and> diff_percent 90 100 = Inr (- 10)"
  by (simp add: diff_percent_def ltc_diff_percent_def truediv_def ebind_def)

lemma mine_retains_eq: "mine_retains tx = tx_confirmed tx"
proof -
  obtain fpb vsize where "calculate_fee_per_byte tx = Inr (fpb, vsize)"
    using calculate_fee_per_byte_eq by blast
  then show ?thesis by (simp add: mine_retains_def our_tx_step_eq)
qed

text \<open>
  C5 (as amended). The exclusion rules are applied to the network sample only. A
  transaction of the user is retained exactly when it is confirmed; a transaction of a
  block is retained exactly when none of its inputs is a coinbase, it is not a many-input
  low-fee transaction, and its fee per byte lies in (0, 8].
\<close>

theorem exclusion_rules_network_only:
  assumes "calculate_fee_per_byte tx = Inr (fpb, vsize)"
  shows "mine_retains tx = tx_confirmed tx
       \<and> network_retains tx =
           (\<not> list_ex (\<lambda>vin. dget (is_coinbase vin) False) (dget (ltx_vin tx) [])
            \<and> \<not> (length (dget (ltx_vin tx) []) > 5 \<and> fpb < 2)
            \<and> 0 < fpb \<and> fpb \<le> 8)"
  using assms
  by (auto simp add: mine_retains_eq network_retains_def network_tx_step_eq MAX_FEE_def)

theorem exclusion_rules_network_only_witness:
  "mine_retains (six_inputs 300) \<and> network_retains (six_inputs 300)
   \<and> \<not> mine_retains unconfirmed_tx"
  using exclusion_rules_network_only [OF six_inputs_fee_300]
    exclusion_rules_network_only [of unconfirmed_tx 2 100]
  by (simp add: six_inputs_def unconfirmed_tx_def tx_confirmed_def dget_def
      calculate_fee_per_byte_def truediv_def)

text \<open>
  The claim as stated fails: a confirmed transaction of the user with 6 inputs and a fee
  of 1.5 per byte is retained on the user's side and dropped from the network sample.
\<close>

theorem same_rules_counterexample:
  "\<not> (mine_retains (six_inputs 150) \<longleftrightarrow> network_retains (six_inputs 150))"
  using exclusion_rules_network_only [OF six_inputs_fee_150]
  by (simp add: six_inputs_def tx_confirmed_def dget_def)

section \<open>Verified properties: the user's own Litecoin transactions\<close>

lemma our_tx_step_unconfirmed: "\<not> tx_confirmed tx \<Longrightarrow> our_tx_step tx acc = Inr acc"
  by (simp add: our_tx_step_def)

lemma our_tx_loop_filter: "our_tx_loop txs acc = our_tx_loop (filter tx_confirmed txs) acc"
  by (induction txs arbitrary: acc) (auto simp add: our_tx_step_unconfirmed split: sum.splits)

lemma our_tx_loop_length:
  "our_tx_loop txs acc = Inr acc' \<Longrightarrow>
     length (fees acc') = length (fees acc) + length (filter tx_confirmed txs)"
proof (induction txs arbitrary: acc)
  case Nil
  then show ?case by simp
next
  case (Cons tx txs)
  obtain fpb vsize where c: "calculate_fee_per_byte tx = Inr (fpb, vsize)"
    using calculate_fee_per_byte_eq by blast
  show ?case
  proof (cases "tx_confirmed tx")
    case True
    with Cons.prems c have
      "our_tx_loop txs \<lparr>fees = fees acc @ [fpb],
                  sizes = sizes acc @ [dget (ltx_size tx) 0],
                  weights = weights acc @ [dget (ltx_weight tx) 0],
                  inputs = inputs acc @ [length (dget (ltx_vin tx) [])],
                  outputs = outputs acc @ [length (dget (ltx_vout tx) [])]\<rparr> = Inr acc'"
      by (simp add: our_tx_step_eq)
    from Cons.IH[OF this] True show ?thesis by simp
  next
    case False
    with Cons.prems have "our_tx_loop txs acc = Inr acc'"
      by (simp add: our_tx_step_unconfirmed)
    from Cons.IH[OF this] False show ?thesis by simp
  qed
qed

lemma our_tx_loop_none_confirmed:
  "\<not> list_ex tx_confirmed txs \<Longrightarrow> our_tx_loop txs acc = Inr acc"
proof -
  assume "\<not> list_ex tx_confirmed txs"
  then have "filter tx_confirmed txs = []"
    by (simp add: list_ex_iff filter_empty_conv)
  then show ?thesis using our_tx_loop_filter[of txs acc] by simp
qed

lemma our_medians_total_txs: "our_medians acc = Inr stats \<Longrightarrow> total_txs stats = length (fees acc)"
  by (auto simp add: our_medians_def ebind_Inr_iff)

text \<open>
  C10. The user's statistics are computed over confirmed transactions only: the loop over
  the fetched transactions gives the same lists as on the confirmed ones alone; when none
  of the (at most 20) fetched transactions is confirmed, \<^verbatim>\<open>get_our_transactions_stats\<close>
  returns \<^verbatim>\<open>None\<close> and \<^verbatim>\<open>main\<close> ends after that one request, before any block is asked
  for; and when statistics are returned, \<^verbatim>\<open>total_txs\<close> is the number of confirmed
  transactions among those fetched.
\<close>

theorem only_confirmed_transactions_count:
  "our_tx_loop txs acc = our_tx_loop (filter tx_confirmed txs) acc
   \<and> (my_address \<noteq> [] \<and> address_txs api [] = Some response
        \<and> \<not> list_ex tx_confirmed (take OUR_TRANSACTIONS_LIMIT response)
      \<longrightarrow> get_our_transactions_stats my_address api [] = (None, [CallAddressTxs])
          \<and> ltc_main my_address api = Inr (NoUserStatistics, [CallAddressTxs]))
   \<and> (get_our_transactions_stats my_address api calls = (Some stats, calls')
      \<longrightarrow> (\<exists>response. address_txs api calls = Some response
             \<and> total_txs stats
                 = length (filter tx_confirmed (take OUR_TRANSACTIONS_LIMIT response))))"
proof (intro conjI impI)
  show "our_tx_loop txs acc = our_tx_loop (filter tx_confirmed txs) acc"
    by (rule our_tx_loop_filter)
next
  assume a: "my_address \<noteq> [] \<and> address_txs api [] = Some response
        \<and> \<not> list_ex tx_confirmed (take OUR_TRANSACTIONS_LIMIT response)"
  then show g: "get_our_transactions_stats my_address api [] = (None, [CallAddressTxs])"
    by (simp add: get_our_transactions_stats_def our_tx_loop_none_confirmed)
  from a g show "ltc_main my_address api = Inr (NoUserStatistics, [CallAddressTxs])"
    by (simp add: ltc_main_def)
next
  assume s: "get_our_transactions_stats my_address api calls = (Some stats, calls')"
  then obtain response where r: "address_txs api calls = Some response"
    by (auto simp add: get_our_transactions_stats_def split: if_splits option.splits)
  let ?empty = "\<lparr>fees = [], sizes = [], weights = [], inputs = [], outputs = []\<rparr>"
  from s r obtain acc' where
    l: "our_tx_loop (take OUR_TRANSACTIONS_LIMIT response) ?empty = Inr acc'"
    and m: "our_medians acc' = Inr stats"
    by (auto simp add: get_our_transactions_stats_def Let_def
        split: if_splits option.splits sum.splits)
  from our_tx_loop_length[OF l] our_medians_total_txs[OF m] r
  show "\<exists>response. address_txs api calls = Some response
             \<and> total_txs stats
                 = length (filter tx_confirmed (take OUR_TRANSACTIONS_LIMIT response))"
    by simp
qed

lemmas ltc_eval = ltc_example_api_def six_inputs_def unconfirmed_tx_def last_block_only_def
  get_our_transactions_stats_def our_tx_step_def tx_confirmed_def calculate_fee_per_byte_def
  is_cpfp_transaction_def network_tx_step_def truediv_def dget_def ebind_def
  OUR_TRANSACTIONS_LIMIT_def NETWORK_BLOCKS_LIMIT_def MAX_FEE_def our_medians_def median_def
  ltc_main_def analyze_network_transactions_def get_recent_blocks_def get_blockchain_info_def
  ltc_get_block_transactions_def build_report_def comparison_def ltc_diff_percent_def

theorem only_confirmed_transactions_count_witness:
  "ltc_main ''LTC1'' (ltc_example_api [unconfirmed_tx] 100 last_block_only)
     = Inr (NoUserStatistics, [CallAddressTxs])
   \<and> (\<exists>stats. get_our_transactions_stats ''LTC1''
          (ltc_example_api [six_inputs 150, unconfirmed_tx] 100 last_block_only) []
          = (Some stats, [CallAddressTxs])
        \<and> total_txs stats = 1)"
proof -
  have 1: "''LTC1'' \<noteq> [] \<and>
      address_txs (ltc_example_api [unconfirmed_tx] 100 last_block_only) [] = Some [unconfirmed_tx]
      \<and> \<not> list_ex tx_confirmed (take OUR_TRANSACTIONS_LIMIT [unconfirmed_tx])"
    by (simp add: ltc_example_api_def unconfirmed_tx_def tx_confirmed_def dget_def
        OUR_TRANSACTIONS_LIMIT_def)
  obtain stats where 2: "get_our_transactions_stats ''LTC1''
          (ltc_example_api [six_inputs 150, unconfirmed_tx] 100 last_block_only) []
          = (Some stats, [CallAddressTxs])"
    by (simp add: ltc_eval)
  from only_confirmed_transactions_count[of _ _ "''LTC1''"
      "ltc_example_api [unconfirmed_tx] 100 last_block_only" "[unconfirmed_tx]"] 1
  have a: "ltc_main ''LTC1'' (ltc_example_api [unconfirmed_tx] 100 last_block_only)
     = Inr (NoUserStatistics, [CallAddressTxs])"
    by blast
  from only_confirmed_transactions_count[of _ _ "''LTC1''"
      "ltc_example_api [six_inputs 150, unconfirmed_tx] 100 last_block_only" _ "[]" stats
      "[CallAddressTxs]"] 2
  have "total_txs stats = 1"
    by (simp add: ltc_example_api_def OUR_TRANSACTIONS_LIMIT_def six_inputs_def
        unconfirmed_tx_def tx_confirmed_def dget_def)
  with a 2 show ?thesis by blast
qed

section \<open>Verified properties: the blocks a run scans\<close>












section \<open>Verified properties: the statistics of the account-model files\<close>




lemma add_all_Nil: "add_all [] s = s"
  by (simp add: add_all_def)

lemma add_all_Cons:
  "add_all sel (s\<lparr>st_count := st_count s + 1,
                  total_gas_used := total_gas_used s + t_gas_used tx,
                  total_gas_price := total_gas_price s + t_gas_price tx,
                  total_gas_limit := total_gas_limit s + t_gas_limit tx,
                  total_fee := total_fee s + t_fee tx\<rparr>) = add_all (tx # sel) s"
  by (simp add: add_all_def algebra_simps)







lemma analyze_data_example:
  "analyze_data
   [\<lparr>t_token = ''eth'', t_hash = JStr ''0xh1'', t_block = 100, t_gas_used = 21000,
          t_gas_price = 50000000000, t_gas_limit = 21000, t_fee = 21000 * 50000000000\<rparr>,
    \<lparr>t_token = ''eth'', t_hash = JStr ''0xh2'', t_block = 101, t_gas_used = 21000,
          t_gas_price = 60000000000, t_gas_limit = 21000, t_fee = 21000 * 60000000000\<rparr>] []
   = Inr ([(''eth'', \<lparr>st_count = 2, total_gas_used = 42000, total_gas_price = 110000000000,
        total_gas_limit = 42000, total_fee = 2310000000000000,
        avg_gas_used = Some 21000, avg_gas_price = Some 55000000000,
        avg_gas_limit = Some 21000, avg_fee = Some 1155000000000000\<rparr>)], [])"
  by (simp add: analyze_data_def add_transfer_def new_stats_def set_averages_def truediv_def
      ebind_def)

end
